theory Spec2Isabelle
  imports Main
begin

section \<open>The example script \<open>python_example/main.py\<close>\<close>

text \<open>
  The script builds an \<open>OpenAI\<close> client for the local \<open>cgpu serve\<close> endpoint, issues one
  \<open>client.responses.create\<close> call inside a \<open>try\<close> block and prints either the response
  or an error message. The embedding keeps the statements of the script in their order:
  the constructor call stands before the \<open>try\<close>, the \<open>try\<close> body has one
  progress line, the call, two prints, the read of \<open>response.output_text\<close> and two more
  prints, and the \<open>except Exception\<close> clause has two prints.
\<close>

subsection \<open>Python values\<close>

text \<open>
  An exception object is seen through two observations: the names of the classes in the
  method resolution order of its type (what \<open>except C\<close> inspects) and the text that
  \<open>str(e)\<close> gives (what the f-string \<open>{e}\<close> inserts).
\<close>

record py_exception =
  exc_mro :: "string list"
  exc_str :: string

definition isinstance :: "py_exception \<Rightarrow> string \<Rightarrow> bool" where
  "isinstance e cls = (cls \<in> set (exc_mro e))"

text \<open>Python's \<open>s * n\<close> on a string: \<open>n\<close> copies of \<open>s\<close>, none when \<open>n\<close> is negative.\<close>

definition str_mul :: "string \<Rightarrow> int \<Rightarrow> string" where
  "str_mul s n = concat (replicate (nat n) s)"

text \<open>
  The client object keeps the two constructor arguments. The script passes no other
  argument, so every other setting of the client is the default of the package.
\<close>

record client =
  base_url :: string
  api_key :: string

text \<open>The keyword arguments of a call, in the order they are written.\<close>

type_synonym kwargs = "(string \<times> string) list"

text \<open>
  The response object is seen through the read of its attribute \<open>output_text\<close>. In the
  package the attribute is computed from the items of the reply when it is read, so the
  read gives a string or raises.
\<close>

record response =
  output_text :: "py_exception + string"

subsection \<open>The \<open>openai\<close> package as a parameter\<close>

text \<open>
  The package is not part of the repository. The script uses two of its entry points, and
  each is a parameter of the model: whether \<open>OpenAI(base_url=..., api_key=...)\<close> raises,
  and what \<open>client.responses.create(**kwargs)\<close> does, which is to raise or to return a
  response. The second stands for the package together with the network and the server.
  A third parameter is how many times the package transmits the request to the server
  during one invocation of \<open>create\<close>: the package sends a request again when an attempt
  fails in certain ways, as often as the setting \<open>max_retries\<close> of the client allows.
\<close>

record openai_sdk =
  OpenAI_raises :: "string \<Rightarrow> string \<Rightarrow> py_exception option"
  create_result :: "client \<Rightarrow> kwargs \<Rightarrow> py_exception + response"
  transmissions :: "client \<Rightarrow> kwargs \<Rightarrow> nat"

subsection \<open>Statements with output and exceptions\<close>

text \<open>
  The state of a run is what it has written to standard output, one entry for each
  \<open>print\<close> call, and the log of the invocations of \<open>responses.create\<close>, each with the
  client and the keyword arguments handed to the package. A statement maps a state to a
  new state and either a value or a raised exception; what was printed before a raise
  stays printed. The places where the script can raise are its two calls into the
  package and the read of \<open>response.output_text\<close>; \<open>print\<close> and the formatting of
  \<open>{e}\<close> are taken to succeed. The model starts after the \<open>import\<close> line, with the
  name \<open>OpenAI\<close> bound.
\<close>

record state =
  stdout :: "string list"
  calls :: "(client \<times> kwargs) list"

type_synonym 'a prog = "state \<Rightarrow> (py_exception + 'a) \<times> state"

definition py_bind :: "'a prog \<Rightarrow> ('a \<Rightarrow> 'b prog) \<Rightarrow> 'b prog" where
  "py_bind m f st =
     (case m st of
        (Inl e, st') \<Rightarrow> (Inl e, st')
      | (Inr x, st') \<Rightarrow> f x st')"

text \<open>
  \<open>try: body except cls as e: handler e\<close>. An exception of the body whose type has
  \<open>cls\<close> in its method resolution order runs the handler; any other exception goes on.
\<close>

definition try_except :: "unit prog \<Rightarrow> string \<Rightarrow> (py_exception \<Rightarrow> unit prog) \<Rightarrow> unit prog" where
  "try_except body cls handler st =
     (case body st of
        (Inl e, st') \<Rightarrow> if isinstance e cls then handler e st' else (Inl e, st')
      | (Inr x, st') \<Rightarrow> (Inr x, st'))"

definition print :: "string \<Rightarrow> unit prog" where
  "print s st = (Inr (), st\<lparr>stdout := stdout st @ [s]\<rparr>)"

definition OpenAI :: "openai_sdk \<Rightarrow> string \<Rightarrow> string \<Rightarrow> client prog" where
  "OpenAI sdk url key st =
     (case OpenAI_raises sdk url key of
        Some e \<Rightarrow> (Inl e, st)
      | None \<Rightarrow> (Inr \<lparr>base_url = url, api_key = key\<rparr>, st))"

definition responses_create :: "openai_sdk \<Rightarrow> client \<Rightarrow> kwargs \<Rightarrow> response prog" where
  "responses_create sdk c kw st =
     (create_result sdk c kw, st\<lparr>calls := calls st @ [(c, kw)]\<rparr>)"

text \<open>The read \<open>response.output_text\<close>: it changes no state and may raise.\<close>

definition get_output_text :: "response \<Rightarrow> string prog" where
  "get_output_text r st = (output_text r, st)"

subsection \<open>The script\<close>

definition try_body :: "openai_sdk \<Rightarrow> client \<Rightarrow> unit prog" where
  "try_body sdk client =
     py_bind (print ''Sending request to cgpu serve...'') (\<lambda>_.
     py_bind (responses_create sdk client
                [(''model'', ''gemini-2.0-flash''),
                 (''instructions'', ''You are a coding assistant that talks like a pirate.''),
                 (''input'', ''How do I check if a Python object is an instance of a class?'')])
       (\<lambda>response.
     py_bind (print ''\<newline>Response received:'') (\<lambda>_.
     py_bind (print (str_mul ''-'' 20)) (\<lambda>_.
     py_bind (get_output_text response) (\<lambda>text.
     py_bind (print text) (\<lambda>_.
     print (str_mul ''-'' 20)))))))"

definition except_body :: "py_exception \<Rightarrow> unit prog" where
  "except_body e =
     py_bind (print (''\<newline>Error: '' @ exc_str e)) (\<lambda>_.
     print ''\<newline>Make sure 'cgpu serve' is running in another terminal.'')"

definition main :: "openai_sdk \<Rightarrow> unit prog" where
  "main sdk =
     py_bind (OpenAI sdk ''http://localhost:8080/v1'' ''unused'') (\<lambda>client.
     try_except (try_body sdk client) ''Exception'' except_body)"

text \<open>
  A run starts with nothing printed and no call issued. Its first component is
  \<open>Inr ()\<close> when the script reaches its end and \<open>Inl e\<close> when \<open>e\<close> leaves the script
  uncaught.
\<close>

definition run :: "openai_sdk \<Rightarrow> (py_exception + unit) \<times> state" where
  "run sdk = main sdk \<lparr>stdout = [], calls = []\<rparr>"

text \<open>The text on the console: every \<open>print\<close> writes its argument and a newline.\<close>

definition console :: "state \<Rightarrow> string" where
  "console st = concat (map (\<lambda>s. s @ ''\<newline>'') (stdout st))"


subsection \<open>The values the script is written with\<close>

abbreviation the_client :: client where
  "the_client \<equiv> \<lparr>base_url = ''http://localhost:8080/v1'', api_key = ''unused''\<rparr>"

abbreviation the_request :: kwargs where
  "the_request \<equiv>
     [(''model'', ''gemini-2.0-flash''),
      (''instructions'', ''You are a coding assistant that talks like a pirate.''),
      (''input'', ''How do I check if a Python object is an instance of a class?'')]"

abbreviation progress_line :: string where
  "progress_line \<equiv> ''Sending request to cgpu serve...''"

abbreviation header_line :: string where
  "header_line \<equiv> ''\<newline>Response received:''"

abbreviation separator :: string where
  "separator \<equiv> ''--------------------''"

abbreviation hint_line :: string where
  "hint_line \<equiv> ''\<newline>Make sure 'cgpu serve' is running in another terminal.''"

subsection \<open>Concrete servers and failures\<close>

text \<open>
  The exception objects below carry the method resolution order that Python and the
  \<open>openai\<close> package give to their classes.
\<close>

definition connection_refused :: py_exception where
  "connection_refused =
     \<lparr>exc_mro = [''APIConnectionError'', ''APIError'', ''OpenAIError'', ''Exception'',
                 ''BaseException'', ''object''],
      exc_str = ''Connection error.''\<rparr>"

definition keyboard_interrupt :: py_exception where
  "keyboard_interrupt =
     \<lparr>exc_mro = [''KeyboardInterrupt'', ''BaseException'', ''object''], exc_str = []\<rparr>"

definition init_type_error :: py_exception where
  "init_type_error =
     \<lparr>exc_mro = [''TypeError'', ''Exception'', ''BaseException'', ''object''],
      exc_str = ''__init__() got an unexpected keyword argument proxies''\<rparr>"

definition bad_request :: py_exception where
  "bad_request =
     \<lparr>exc_mro = [''BadRequestError'', ''APIStatusError'', ''APIError'', ''OpenAIError'',
                 ''Exception'', ''BaseException'', ''object''],
      exc_str = ''Error code: 400''\<rparr>"

text \<open>What the read of \<open>output_text\<close> raises on a reply that has no output items.\<close>

definition output_not_iterable :: py_exception where
  "output_not_iterable =
     \<lparr>exc_mro = [''TypeError'', ''Exception'', ''BaseException'', ''object''],
      exc_str = '''NoneType' object is not iterable''\<rparr>"

abbreviation pirate_text :: string where
  "pirate_text \<equiv> ''Arrr, ye scallywag, use isinstance() to check the type!''"

text \<open>The mock server of the example scenario: the known request gets the fixed text.\<close>

definition mock_server :: openai_sdk where
  "mock_server =
     \<lparr>OpenAI_raises = (\<lambda>url key. None),
      create_result = (\<lambda>c kw.
        if kw = the_request then Inr \<lparr>output_text = Inr pirate_text\<rparr> else Inl bad_request),
      transmissions = (\<lambda>c kw. 1)\<rparr>"

text \<open>A second server that gives the same text to every request.\<close>

definition parrot_server :: openai_sdk where
  "parrot_server =
     \<lparr>OpenAI_raises = (\<lambda>url key. None),
      create_result = (\<lambda>c kw. Inr \<lparr>output_text = Inr pirate_text\<rparr>),
      transmissions = (\<lambda>c kw. 1)\<rparr>"

text \<open>
  No server listens on the port: the call raises the package's connection error. The
  client has the package's default of two retries, so the package has transmitted the
  request three times before it raises.
\<close>

definition unreachable_endpoint :: openai_sdk where
  "unreachable_endpoint =
     \<lparr>OpenAI_raises = (\<lambda>url key. None),
      create_result = (\<lambda>c kw. Inl connection_refused),
      transmissions = (\<lambda>c kw. 3)\<rparr>"

text \<open>The user interrupts the script while the call waits for the server.\<close>

definition interrupted_call :: openai_sdk where
  "interrupted_call =
     \<lparr>OpenAI_raises = (\<lambda>url key. None),
      create_result = (\<lambda>c kw. Inl keyboard_interrupt),
      transmissions = (\<lambda>c kw. 1)\<rparr>"

text \<open>
  The server answers with status 200 and an empty JSON object: the call returns a
  response, and the read of its \<open>output_text\<close> raises.
\<close>

definition malformed_reply :: openai_sdk where
  "malformed_reply =
     \<lparr>OpenAI_raises = (\<lambda>url key. None),
      create_result = (\<lambda>c kw. Inr \<lparr>output_text = Inl output_not_iterable\<rparr>),
      transmissions = (\<lambda>c kw. 1)\<rparr>"

text \<open>
  An installation in which the constructor itself raises (the package passing its HTTP
  library an argument that the installed version no longer takes).
\<close>

definition failing_constructor :: openai_sdk where
  "failing_constructor =
     \<lparr>OpenAI_raises = (\<lambda>url key. Some init_type_error),
      create_result = (\<lambda>c kw. Inr \<lparr>output_text = Inr pirate_text\<rparr>),
      transmissions = (\<lambda>c kw. 1)\<rparr>"

text \<open>
  A package and server that take one request body only: every call with other keyword
  arguments is refused with status 400, and a call with the body \<open>kw0\<close> is answered as
  \<open>sdk\<close> answers it.
\<close>

definition accepting_only :: "kwargs \<Rightarrow> openai_sdk \<Rightarrow> openai_sdk" where
  "accepting_only kw0 sdk =
     sdk\<lparr>create_result :=
           (\<lambda>c kw. if kw = kw0 then create_result sdk c kw else Inl bad_request)\<rparr>"

section \<open>What a run does, path by path\<close>

lemma separator_text: "str_mul ''-'' 20 = separator"
  by (simp add: str_mul_def eval_nat_numeral)

lemma try_body_returned:
  assumes "create_result sdk c the_request = Inr r"
    and "output_text r = Inr t"
  shows "try_body sdk c st =
     (Inr (), st\<lparr>stdout := stdout st @
                    [progress_line, header_line, separator, t, separator],
                 calls := calls st @ [(c, the_request)]\<rparr>)"
  using assms
  by (simp add: try_body_def py_bind_def responses_create_def print_def get_output_text_def
      separator_text)

lemma try_body_read_raised:
  assumes "create_result sdk c the_request = Inr r"
    and "output_text r = Inl e"
  shows "try_body sdk c st =
     (Inl e, st\<lparr>stdout := stdout st @ [progress_line, header_line, separator],
                calls := calls st @ [(c, the_request)]\<rparr>)"
  using assms
  by (simp add: try_body_def py_bind_def responses_create_def print_def get_output_text_def
      separator_text)

lemma try_body_raised:
  assumes "create_result sdk c the_request = Inl e"
  shows "try_body sdk c st =
     (Inl e, st\<lparr>stdout := stdout st @ [progress_line],
                calls := calls st @ [(c, the_request)]\<rparr>)"
  using assms
  by (simp add: try_body_def py_bind_def responses_create_def print_def)

lemma except_body_prints:
  "except_body e st =
     (Inr (), st\<lparr>stdout := stdout st @ [''\<newline>Error: '' @ exc_str e, hint_line]\<rparr>)"
  by (simp add: except_body_def py_bind_def print_def)

lemma main_construction_raises:
  assumes "OpenAI_raises sdk ''http://localhost:8080/v1'' ''unused'' = Some e"
  shows "main sdk st = (Inl e, st)"
  using assms by (simp add: main_def py_bind_def OpenAI_def)

lemma main_returned:
  assumes "OpenAI_raises sdk ''http://localhost:8080/v1'' ''unused'' = None"
    and "create_result sdk the_client the_request = Inr r"
    and "output_text r = Inr t"
  shows "main sdk st =
     (Inr (), st\<lparr>stdout := stdout st @
                    [progress_line, header_line, separator, t, separator],
                 calls := calls st @ [(the_client, the_request)]\<rparr>)"
  using assms
  by (simp add: main_def py_bind_def OpenAI_def try_except_def try_body_returned)

lemma main_read_caught:
  assumes "OpenAI_raises sdk ''http://localhost:8080/v1'' ''unused'' = None"
    and "create_result sdk the_client the_request = Inr r"
    and "output_text r = Inl e"
    and "isinstance e ''Exception''"
  shows "main sdk st =
     (Inr (), st\<lparr>stdout := stdout st @
                    [progress_line, header_line, separator,
                     ''\<newline>Error: '' @ exc_str e, hint_line],
                 calls := calls st @ [(the_client, the_request)]\<rparr>)"
  using assms
  by (simp add: main_def py_bind_def OpenAI_def try_except_def try_body_read_raised
      except_body_prints)

lemma main_read_uncaught:
  assumes "OpenAI_raises sdk ''http://localhost:8080/v1'' ''unused'' = None"
    and "create_result sdk the_client the_request = Inr r"
    and "output_text r = Inl e"
    and "\<not> isinstance e ''Exception''"
  shows "main sdk st =
     (Inl e, st\<lparr>stdout := stdout st @ [progress_line, header_line, separator],
                calls := calls st @ [(the_client, the_request)]\<rparr>)"
  using assms
  by (simp add: main_def py_bind_def OpenAI_def try_except_def try_body_read_raised)

lemma main_caught:
  assumes "OpenAI_raises sdk ''http://localhost:8080/v1'' ''unused'' = None"
    and "create_result sdk the_client the_request = Inl e"
    and "isinstance e ''Exception''"
  shows "main sdk st =
     (Inr (), st\<lparr>stdout := stdout st @
                    [progress_line, ''\<newline>Error: '' @ exc_str e, hint_line],
                 calls := calls st @ [(the_client, the_request)]\<rparr>)"
  using assms
  by (simp add: main_def py_bind_def OpenAI_def try_except_def try_body_raised
      except_body_prints)

lemma main_uncaught:
  assumes "OpenAI_raises sdk ''http://localhost:8080/v1'' ''unused'' = None"
    and "create_result sdk the_client the_request = Inl e"
    and "\<not> isinstance e ''Exception''"
  shows "main sdk st =
     (Inl e, st\<lparr>stdout := stdout st @ [progress_line],
                calls := calls st @ [(the_client, the_request)]\<rparr>)"
  using assms
  by (simp add: main_def py_bind_def OpenAI_def try_except_def try_body_raised)

text \<open>
  The six paths are all there are: the constructor raises or returns, the call returns
  or raises, the read of the output text gives a string or raises, and a raised
  exception is an \<open>Exception\<close> or not.
\<close>

lemma main_paths:
  obtains
    (construction) e where "OpenAI_raises sdk ''http://localhost:8080/v1'' ''unused'' = Some e"
  | (returned) r t where "OpenAI_raises sdk ''http://localhost:8080/v1'' ''unused'' = None"
      and "create_result sdk the_client the_request = Inr r"
      and "output_text r = Inr t"
  | (read_caught) r e where "OpenAI_raises sdk ''http://localhost:8080/v1'' ''unused'' = None"
      and "create_result sdk the_client the_request = Inr r"
      and "output_text r = Inl e"
      and "isinstance e ''Exception''"
  | (read_uncaught) r e where "OpenAI_raises sdk ''http://localhost:8080/v1'' ''unused'' = None"
      and "create_result sdk the_client the_request = Inr r"
      and "output_text r = Inl e"
      and "\<not> isinstance e ''Exception''"
  | (caught) e where "OpenAI_raises sdk ''http://localhost:8080/v1'' ''unused'' = None"
      and "create_result sdk the_client the_request = Inl e"
      and "isinstance e ''Exception''"
  | (uncaught) e where "OpenAI_raises sdk ''http://localhost:8080/v1'' ''unused'' = None"
      and "create_result sdk the_client the_request = Inl e"
      and "\<not> isinstance e ''Exception''"
proof (cases "OpenAI_raises sdk ''http://localhost:8080/v1'' ''unused''")
  case (Some e)
  then show ?thesis by (rule construction)
next
  case None
  show ?thesis
  proof (cases "create_result sdk the_client the_request")
    case (Inr r)
    show ?thesis
    proof (cases "output_text r")
      case (Inr t)
      with None \<open>create_result sdk the_client the_request = Inr r\<close> show ?thesis
        by (rule returned)
    next
      case (Inl e)
      with None \<open>create_result sdk the_client the_request = Inr r\<close> show ?thesis
        by (cases "isinstance e ''Exception''") (blast intro: read_caught read_uncaught)+
    qed
  next
    case (Inl e)
    with None show ?thesis
      by (cases "isinstance e ''Exception''") (blast intro: caught uncaught)+
  qed
qed

text \<open>
  What the script prints and which calls it issues do not depend on the state it starts
  in: both are appended to what the state holds.
\<close>

lemma main_appends:
  "stdout (snd (main sdk st)) = stdout st @ stdout (snd (run sdk)) \<and>
   calls (snd (main sdk st)) = calls st @ calls (snd (run sdk)) \<and>
   fst (main sdk st) = fst (run sdk)"
proof (cases sdk rule: main_paths)
  case (construction e)
  then show ?thesis by (simp add: run_def main_construction_raises)
next
  case (returned r t)
  then show ?thesis by (simp add: run_def main_returned)
next
  case (read_caught r e)
  then show ?thesis by (simp add: run_def main_read_caught)
next
  case (read_uncaught r e)
  then show ?thesis by (simp add: run_def main_read_uncaught)
next
  case (caught e)
  then show ?thesis by (simp add: run_def main_caught)
next
  case (uncaught e)
  then show ?thesis by (simp add: run_def main_uncaught)
qed

text \<open>
  A run reads the package at two places only: the constructor with the arguments of the
  script, and \<open>create\<close> with the client and the request of the script.
\<close>

lemma run_reads_two_places:
  assumes "OpenAI_raises sdk1 ''http://localhost:8080/v1'' ''unused'' =
           OpenAI_raises sdk2 ''http://localhost:8080/v1'' ''unused''"
    and "create_result sdk1 the_client the_request = create_result sdk2 the_client the_request"
  shows "run sdk1 = run sdk2"
proof (cases sdk1 rule: main_paths)
  case (construction e)
  with assms(1) have "OpenAI_raises sdk2 ''http://localhost:8080/v1'' ''unused'' = Some e"
    by simp
  with construction show ?thesis by (simp add: run_def main_construction_raises)
next
  case (returned r t)
  with assms have "OpenAI_raises sdk2 ''http://localhost:8080/v1'' ''unused'' = None"
    and "create_result sdk2 the_client the_request = Inr r"
    by simp_all
  with returned show ?thesis by (simp add: run_def main_returned)
next
  case (read_caught r e)
  with assms have "OpenAI_raises sdk2 ''http://localhost:8080/v1'' ''unused'' = None"
    and "create_result sdk2 the_client the_request = Inr r"
    by simp_all
  with read_caught show ?thesis by (simp add: run_def main_read_caught)
next
  case (read_uncaught r e)
  with assms have "OpenAI_raises sdk2 ''http://localhost:8080/v1'' ''unused'' = None"
    and "create_result sdk2 the_client the_request = Inr r"
    by simp_all
  with read_uncaught show ?thesis by (simp add: run_def main_read_uncaught)
next
  case (caught e)
  with assms have "OpenAI_raises sdk2 ''http://localhost:8080/v1'' ''unused'' = None"
    and "create_result sdk2 the_client the_request = Inl e"
    by simp_all
  with caught show ?thesis by (simp add: run_def main_caught)
next
  case (uncaught e)
  with assms have "OpenAI_raises sdk2 ''http://localhost:8080/v1'' ''unused'' = None"
    and "create_result sdk2 the_client the_request = Inl e"
    by simp_all
  with uncaught show ?thesis by (simp add: run_def main_uncaught)
qed

text \<open>The log of a run, by the outcome of the constructor.\<close>

lemma calls_of_run:
  "calls (snd (run sdk)) =
     (case OpenAI_raises sdk ''http://localhost:8080/v1'' ''unused'' of
        Some e \<Rightarrow> []
      | None \<Rightarrow> [(the_client, the_request)])"
proof (cases sdk rule: main_paths)
  case (construction e)
  then show ?thesis by (simp add: run_def main_construction_raises)
next
  case (returned r t)
  then show ?thesis by (simp add: run_def main_returned)
next
  case (read_caught r e)
  then show ?thesis by (simp add: run_def main_read_caught)
next
  case (read_uncaught r e)
  then show ?thesis by (simp add: run_def main_read_uncaught)
next
  case (caught e)
  then show ?thesis by (simp add: run_def main_caught)
next
  case (uncaught e)
  then show ?thesis by (simp add: run_def main_uncaught)
qed

section \<open>Properties of the script\<close>

subsection \<open>The progress line\<close>

text \<open>
  Claim C9. In every run in which the constructor returns a client, the line
  \<open>Sending request to cgpu serve...\<close> is the first thing printed, whether the call then
  returns a response or raises.
\<close>

theorem progress_line_first:
  assumes "OpenAI_raises sdk ''http://localhost:8080/v1'' ''unused'' = None"
  shows "stdout (snd (run sdk)) \<noteq> [] \<and>
         hd (stdout (snd (run sdk))) = ''Sending request to cgpu serve...''"
proof (cases sdk rule: main_paths)
  case (construction e)
  with assms show ?thesis by simp
next
  case (returned r t)
  then show ?thesis by (simp add: run_def main_returned)
next
  case (read_caught r e)
  then show ?thesis by (simp add: run_def main_read_caught)
next
  case (read_uncaught r e)
  then show ?thesis by (simp add: run_def main_read_uncaught)
next
  case (caught e)
  then show ?thesis by (simp add: run_def main_caught)
next
  case (uncaught e)
  then show ?thesis by (simp add: run_def main_uncaught)
qed

text \<open>The failure path, at an endpoint where nothing listens.\<close>

theorem progress_line_first_witness:
  "OpenAI_raises unreachable_endpoint ''http://localhost:8080/v1'' ''unused'' = None \<and>
   stdout (snd (run unreachable_endpoint)) \<noteq> [] \<and>
   hd (stdout (snd (run unreachable_endpoint))) = ''Sending request to cgpu serve...''"
proof -
  have c: "OpenAI_raises unreachable_endpoint ''http://localhost:8080/v1'' ''unused'' = None"
    by (simp add: unreachable_endpoint_def)
  from progress_line_first [OF c] c show ?thesis by simp
qed

subsection \<open>The success path\<close>

text \<open>
  Claim C3. When the constructor returns a client and the call returns a response that
  carries an output text, the run prints that text with one separator line (twenty
  dashes) right before it and one right after it. On the console the three lines follow
  the progress line, an empty line and the header.
\<close>

theorem output_text_between_separators:
  assumes "OpenAI_raises sdk ''http://localhost:8080/v1'' ''unused'' = None"
    and "create_result sdk the_client the_request = Inr r"
    and "output_text r = Inr t"
  shows "stdout (snd (run sdk)) =
           [progress_line, header_line] @
           [''--------------------'', t, ''--------------------''] \<and>
         console (snd (run sdk)) =
           ''Sending request to cgpu serve...\<newline>\<newline>Response received:\<newline>'' @
           ''--------------------\<newline>'' @ t @ ''\<newline>--------------------\<newline>''"
  using assms by (simp add: run_def main_returned console_def)

theorem output_text_between_separators_witness:
  "OpenAI_raises parrot_server ''http://localhost:8080/v1'' ''unused'' = None \<and>
   create_result parrot_server the_client the_request = Inr \<lparr>output_text = Inr pirate_text\<rparr> \<and>
   output_text \<lparr>output_text = Inr pirate_text\<rparr> = Inr pirate_text \<and>
   stdout (snd (run parrot_server)) =
     [progress_line, header_line, ''--------------------'', pirate_text, ''--------------------'']"
proof -
  have c: "OpenAI_raises parrot_server ''http://localhost:8080/v1'' ''unused'' = None"
    by (simp add: parrot_server_def)
  have r: "create_result parrot_server the_client the_request =
      Inr \<lparr>output_text = Inr pirate_text\<rparr>"
    by (simp add: parrot_server_def)
  have t: "output_text \<lparr>output_text = Inr pirate_text\<rparr> = Inr pirate_text"
    by simp
  from output_text_between_separators [OF c r t] c r show ?thesis by simp
qed

text \<open>
  Claim C2, as amended. In the example scenario the server answers the request of the
  script with the pirate sentence. The console then shows the progress line, an empty
  line, the header \<open>Response received:\<close>, a separator, the sentence and a closing
  separator: the four parts the scenario lists come after the progress line.
\<close>

theorem example_scenario_output:
  assumes "OpenAI_raises sdk ''http://localhost:8080/v1'' ''unused'' = None"
    and "create_result sdk the_client the_request =
           Inr \<lparr>output_text = Inr ''Arrr, ye scallywag, use isinstance() to check the type!''\<rparr>"
  shows "stdout (snd (run sdk)) =
           [''Sending request to cgpu serve...'', ''\<newline>Response received:'',
            ''--------------------'',
            ''Arrr, ye scallywag, use isinstance() to check the type!'',
            ''--------------------''] \<and>
         console (snd (run sdk)) =
           ''Sending request to cgpu serve...\<newline>\<newline>Response received:\<newline>--------------------\<newline>Arrr, ye scallywag, use isinstance() to check the type!\<newline>--------------------\<newline>''"
  using assms by (simp add: run_def main_returned console_def)

theorem example_scenario_output_witness:
  "OpenAI_raises mock_server ''http://localhost:8080/v1'' ''unused'' = None \<and>
   create_result mock_server the_client the_request = Inr \<lparr>output_text = Inr pirate_text\<rparr> \<and>
   stdout (snd (run mock_server)) =
     [progress_line, header_line, separator, pirate_text, separator]"
proof -
  have c: "OpenAI_raises mock_server ''http://localhost:8080/v1'' ''unused'' = None"
    by (simp add: mock_server_def)
  have r: "create_result mock_server the_client the_request =
      Inr \<lparr>output_text = Inr pirate_text\<rparr>"
    by (simp add: mock_server_def)
  from example_scenario_output [OF c r] c r show ?thesis by simp
qed

text \<open>
  Against the mock server the output is not only header, separator, text and separator:
  five lines are printed and the first is the progress line.
\<close>

theorem example_output_starts_with_progress_line:
  "stdout (snd (run mock_server)) \<noteq> [header_line, separator, pirate_text, separator] \<and>
   length (stdout (snd (run mock_server))) = 5 \<and>
   hd (stdout (snd (run mock_server))) = progress_line \<and>
   console (snd (run mock_server)) \<noteq>
     ''\<newline>Response received:\<newline>--------------------\<newline>Arrr, ye scallywag, use isinstance() to check the type!\<newline>--------------------\<newline>''"
proof -
  have c: "OpenAI_raises mock_server ''http://localhost:8080/v1'' ''unused'' = None"
    by (simp add: mock_server_def)
  have r: "create_result mock_server the_client the_request =
      Inr \<lparr>output_text = Inr pirate_text\<rparr>"
    by (simp add: mock_server_def)
  have t: "output_text \<lparr>output_text = Inr pirate_text\<rparr> = Inr pirate_text"
    by simp
  show ?thesis by (simp add: run_def main_returned [OF c r t] console_def)
qed

subsection \<open>The failure path\<close>

text \<open>
  Claim C4. When the call fails, that is, raises an exception whose class derives from
  \<open>Exception\<close> (as the connection error of the package does), the script ends normally:
  the exception does not leave it. After the progress line the console shows an empty
  line, the line that begins with \<open>Error: \<close> and carries the text of the exception, an
  empty line and the remediation hint.
\<close>

theorem failed_call_reported:
  assumes "OpenAI_raises sdk ''http://localhost:8080/v1'' ''unused'' = None"
    and "create_result sdk the_client the_request = Inl e"
    and "isinstance e ''Exception''"
  shows "fst (run sdk) = Inr () \<and>
         stdout (snd (run sdk)) =
           [progress_line, ''\<newline>Error: '' @ exc_str e,
            ''\<newline>Make sure 'cgpu serve' is running in another terminal.''] \<and>
         console (snd (run sdk)) =
           ''Sending request to cgpu serve...\<newline>\<newline>Error: '' @ exc_str e @
           ''\<newline>\<newline>Make sure 'cgpu serve' is running in another terminal.\<newline>''"
  using assms by (simp add: run_def main_caught console_def)

theorem failed_call_reported_witness:
  "OpenAI_raises unreachable_endpoint ''http://localhost:8080/v1'' ''unused'' = None \<and>
   create_result unreachable_endpoint the_client the_request = Inl connection_refused \<and>
   isinstance connection_refused ''Exception'' \<and>
   fst (run unreachable_endpoint) = Inr () \<and>
   console (snd (run unreachable_endpoint)) =
     ''Sending request to cgpu serve...\<newline>\<newline>Error: Connection error.\<newline>\<newline>Make sure 'cgpu serve' is running in another terminal.\<newline>''"
proof -
  have c: "OpenAI_raises unreachable_endpoint ''http://localhost:8080/v1'' ''unused'' = None"
    by (simp add: unreachable_endpoint_def)
  have r: "create_result unreachable_endpoint the_client the_request = Inl connection_refused"
    by (simp add: unreachable_endpoint_def)
  have i: "isinstance connection_refused ''Exception''"
    by (simp add: isinstance_def connection_refused_def)
  have s: "exc_str connection_refused = ''Connection error.''"
    by (simp add: connection_refused_def)
  from failed_call_reported [OF c r i] c r i s show ?thesis by simp
qed

text \<open>
  Claim C6, as amended. When the call itself raises, whatever the class of the
  exception, nothing of the success path is printed: neither the header
  \<open>Response received:\<close> nor a separator is among the printed lines, and no response
  exists whose text could be printed. After the progress line, which stands before the
  call, the handler adds its two lines, the error message and the hint, and nothing
  else; an exception that the handler does not take adds nothing at all. The output is
  not all or nothing for a malformed response: when the call returns a response whose
  output text cannot be read, the header and the first separator are already printed
  when the read raises, and the error message and the hint follow them; the text and the
  closing separator are not printed.
\<close>

theorem failure_output_by_stage:
  "(OpenAI_raises sdk ''http://localhost:8080/v1'' ''unused'' = None \<and>
    create_result sdk the_client the_request = Inl e \<longrightarrow>
      ''\<newline>Response received:'' \<notin> set (stdout (snd (run sdk))) \<and>
      ''--------------------'' \<notin> set (stdout (snd (run sdk))) \<and>
      stdout (snd (run sdk)) =
        ''Sending request to cgpu serve...'' #
        (if isinstance e ''Exception''
         then [''\<newline>Error: '' @ exc_str e,
               ''\<newline>Make sure 'cgpu serve' is running in another terminal.'']
         else [])) \<and>
   (OpenAI_raises sdk' ''http://localhost:8080/v1'' ''unused'' = None \<and>
    create_result sdk' the_client the_request = Inr r \<and> output_text r = Inl e' \<longrightarrow>
      fst (run sdk') = (if isinstance e' ''Exception'' then Inr () else Inl e') \<and>
      stdout (snd (run sdk')) =
        [''Sending request to cgpu serve...'', ''\<newline>Response received:'',
         ''--------------------''] @
        (if isinstance e' ''Exception''
         then [''\<newline>Error: '' @ exc_str e',
               ''\<newline>Make sure 'cgpu serve' is running in another terminal.'']
         else []))"
proof (intro conjI impI)
  assume a: "OpenAI_raises sdk ''http://localhost:8080/v1'' ''unused'' = None \<and>
    create_result sdk the_client the_request = Inl e"
  have out: "stdout (snd (run sdk)) =
        ''Sending request to cgpu serve...'' #
        (if isinstance e ''Exception''
         then [''\<newline>Error: '' @ exc_str e,
               ''\<newline>Make sure 'cgpu serve' is running in another terminal.'']
         else [])"
  proof (cases "isinstance e ''Exception''")
    case True
    with a show ?thesis by (simp add: run_def main_caught)
  next
    case False
    with a show ?thesis by (simp add: run_def main_uncaught)
  qed
  show "''\<newline>Response received:'' \<notin> set (stdout (snd (run sdk)))"
    by (simp add: out)
  show "''--------------------'' \<notin> set (stdout (snd (run sdk)))"
    by (simp add: out)
  show "stdout (snd (run sdk)) =
        ''Sending request to cgpu serve...'' #
        (if isinstance e ''Exception''
         then [''\<newline>Error: '' @ exc_str e,
               ''\<newline>Make sure 'cgpu serve' is running in another terminal.'']
         else [])"
    by (rule out)
next
  assume b: "OpenAI_raises sdk' ''http://localhost:8080/v1'' ''unused'' = None \<and>
    create_result sdk' the_client the_request = Inr r \<and> output_text r = Inl e'"
  show "fst (run sdk') = (if isinstance e' ''Exception'' then Inr () else Inl e')"
  proof (cases "isinstance e' ''Exception''")
    case True
    with b show ?thesis by (simp add: run_def main_read_caught)
  next
    case False
    with b show ?thesis by (simp add: run_def main_read_uncaught)
  qed
  show "stdout (snd (run sdk')) =
        [''Sending request to cgpu serve...'', ''\<newline>Response received:'',
         ''--------------------''] @
        (if isinstance e' ''Exception''
         then [''\<newline>Error: '' @ exc_str e',
               ''\<newline>Make sure 'cgpu serve' is running in another terminal.'']
         else [])"
  proof (cases "isinstance e' ''Exception''")
    case True
    with b show ?thesis by (simp add: run_def main_read_caught)
  next
    case False
    with b show ?thesis by (simp add: run_def main_read_uncaught)
  qed
qed

theorem failure_output_by_stage_witness:
  "OpenAI_raises unreachable_endpoint ''http://localhost:8080/v1'' ''unused'' = None \<and>
   create_result unreachable_endpoint the_client the_request = Inl connection_refused \<and>
   header_line \<notin> set (stdout (snd (run unreachable_endpoint))) \<and>
   separator \<notin> set (stdout (snd (run unreachable_endpoint))) \<and>
   stdout (snd (run unreachable_endpoint)) =
     [progress_line, ''\<newline>Error: Connection error.'', hint_line] \<and>
   OpenAI_raises malformed_reply ''http://localhost:8080/v1'' ''unused'' = None \<and>
   create_result malformed_reply the_client the_request =
     Inr \<lparr>output_text = Inl output_not_iterable\<rparr> \<and>
   fst (run malformed_reply) = Inr () \<and>
   stdout (snd (run malformed_reply)) =
     [progress_line, header_line, separator,
      ''\<newline>Error: 'NoneType' object is not iterable'', hint_line]"
proof -
  have c: "OpenAI_raises unreachable_endpoint ''http://localhost:8080/v1'' ''unused'' = None"
    by (simp add: unreachable_endpoint_def)
  have r: "create_result unreachable_endpoint the_client the_request = Inl connection_refused"
    by (simp add: unreachable_endpoint_def)
  have i: "isinstance connection_refused ''Exception''"
    by (simp add: isinstance_def connection_refused_def)
  have s: "exc_str connection_refused = ''Connection error.''"
    by (simp add: connection_refused_def)
  have c': "OpenAI_raises malformed_reply ''http://localhost:8080/v1'' ''unused'' = None"
    by (simp add: malformed_reply_def)
  have r': "create_result malformed_reply the_client the_request =
      Inr \<lparr>output_text = Inl output_not_iterable\<rparr>"
    by (simp add: malformed_reply_def)
  have i': "isinstance output_not_iterable ''Exception''"
    by (simp add: isinstance_def output_not_iterable_def)
  have s': "exc_str output_not_iterable = '''NoneType' object is not iterable''"
    by (simp add: output_not_iterable_def)
  from failure_output_by_stage
         [of unreachable_endpoint connection_refused malformed_reply
             "\<lparr>output_text = Inl output_not_iterable\<rparr>" output_not_iterable]
       c r i s c' r' i' s'
  show ?thesis by simp
qed

text \<open>
  A reply with status 200 and no output items: the call returns, the header and a
  separator are printed, the read of the output text raises, and the handler prints the
  error message and the hint after them.
\<close>

theorem malformed_reply_prints_header_then_error:
  "create_result malformed_reply the_client the_request =
     Inr \<lparr>output_text = Inl output_not_iterable\<rparr> \<and>
   isinstance output_not_iterable ''Exception'' \<and>
   fst (run malformed_reply) = Inr () \<and>
   header_line \<in> set (stdout (snd (run malformed_reply))) \<and>
   separator \<in> set (stdout (snd (run malformed_reply))) \<and>
   stdout (snd (run malformed_reply)) =
     [progress_line, header_line, separator,
      ''\<newline>Error: 'NoneType' object is not iterable'', hint_line]"
proof -
  have c: "OpenAI_raises malformed_reply ''http://localhost:8080/v1'' ''unused'' = None"
    by (simp add: malformed_reply_def)
  have r: "create_result malformed_reply the_client the_request =
      Inr \<lparr>output_text = Inl output_not_iterable\<rparr>"
    by (simp add: malformed_reply_def)
  have t: "output_text \<lparr>output_text = Inl output_not_iterable\<rparr> = Inl output_not_iterable"
    by simp
  have i: "isinstance output_not_iterable ''Exception''"
    by (simp add: isinstance_def output_not_iterable_def)
  have s: "exc_str output_not_iterable = '''NoneType' object is not iterable''"
    by (simp add: output_not_iterable_def)
  show ?thesis using r i s by (simp add: run_def main_read_caught [OF c r t i])
qed

subsection \<open>What the handler takes\<close>

text \<open>
  Claim C10. The clause is \<open>except Exception\<close>: when the call raises \<open>e\<close>, the script
  ends normally exactly when \<open>Exception\<close> is among the classes of \<open>e\<close>. An exception
  that derives from \<open>BaseException\<close> only, such as \<open>KeyboardInterrupt\<close>, leaves the
  script uncaught.
\<close>

theorem handler_catches_only_Exception:
  assumes "OpenAI_raises sdk ''http://localhost:8080/v1'' ''unused'' = None"
    and "create_result sdk the_client the_request = Inl e"
  shows "fst (run sdk) = (if isinstance e ''Exception'' then Inr () else Inl e)"
proof (cases "isinstance e ''Exception''")
  case True
  with assms show ?thesis by (simp add: run_def main_caught)
next
  case False
  with assms show ?thesis by (simp add: run_def main_uncaught)
qed

theorem handler_catches_only_Exception_witness:
  "OpenAI_raises interrupted_call ''http://localhost:8080/v1'' ''unused'' = None \<and>
   create_result interrupted_call the_client the_request = Inl keyboard_interrupt \<and>
   isinstance keyboard_interrupt ''BaseException'' \<and>
   \<not> isinstance keyboard_interrupt ''Exception'' \<and>
   fst (run interrupted_call) = Inl keyboard_interrupt"
proof -
  have c: "OpenAI_raises interrupted_call ''http://localhost:8080/v1'' ''unused'' = None"
    by (simp add: interrupted_call_def)
  have r: "create_result interrupted_call the_client the_request = Inl keyboard_interrupt"
    by (simp add: interrupted_call_def)
  have b: "isinstance keyboard_interrupt ''BaseException''"
    by (simp add: isinstance_def keyboard_interrupt_def)
  have i: "\<not> isinstance keyboard_interrupt ''Exception''"
    by (simp add: isinstance_def keyboard_interrupt_def)
  from handler_catches_only_Exception [OF c r] c r b i show ?thesis by simp
qed

text \<open>
  Claim C1, as amended. The handler covers the \<open>try\<close> block, and the constructor call
  stands before it. An exception of class \<open>Exception\<close> raised by the network call is
  caught: the script ends normally, and after the progress line it prints the text of
  the exception behind \<open>Error: \<close> and then the hint. An exception raised by the
  constructor is not caught: it leaves the script and nothing is printed.
\<close>

theorem handler_covers_call_not_construction:
  "(OpenAI_raises sdk ''http://localhost:8080/v1'' ''unused'' = None \<and>
    create_result sdk the_client the_request = Inl e \<and> isinstance e ''Exception'' \<longrightarrow>
      fst (run sdk) = Inr () \<and>
      stdout (snd (run sdk)) =
        [progress_line, ''\<newline>Error: '' @ exc_str e,
         ''\<newline>Make sure 'cgpu serve' is running in another terminal.'']) \<and>
   (OpenAI_raises sdk' ''http://localhost:8080/v1'' ''unused'' = Some e' \<longrightarrow>
      fst (run sdk') = Inl e' \<and> stdout (snd (run sdk')) = [])"
  by (simp add: run_def main_caught main_construction_raises)

theorem handler_covers_call_not_construction_witness:
  "OpenAI_raises unreachable_endpoint ''http://localhost:8080/v1'' ''unused'' = None \<and>
   create_result unreachable_endpoint the_client the_request = Inl connection_refused \<and>
   isinstance connection_refused ''Exception'' \<and>
   fst (run unreachable_endpoint) = Inr () \<and>
   stdout (snd (run unreachable_endpoint)) =
     [progress_line, ''\<newline>Error: Connection error.'', hint_line] \<and>
   OpenAI_raises failing_constructor ''http://localhost:8080/v1'' ''unused'' = Some init_type_error \<and>
   fst (run failing_constructor) = Inl init_type_error \<and>
   stdout (snd (run failing_constructor)) = []"
proof -
  have c: "OpenAI_raises unreachable_endpoint ''http://localhost:8080/v1'' ''unused'' = None"
    by (simp add: unreachable_endpoint_def)
  have r: "create_result unreachable_endpoint the_client the_request = Inl connection_refused"
    by (simp add: unreachable_endpoint_def)
  have i: "isinstance connection_refused ''Exception''"
    by (simp add: isinstance_def connection_refused_def)
  have s: "exc_str connection_refused = ''Connection error.''"
    by (simp add: connection_refused_def)
  have f: "OpenAI_raises failing_constructor ''http://localhost:8080/v1'' ''unused'' =
      Some init_type_error"
    by (simp add: failing_constructor_def)
  from handler_covers_call_not_construction
         [of unreachable_endpoint connection_refused failing_constructor init_type_error]
       c r i s f
  show ?thesis by simp
qed

text \<open>
  A constructor that raises a \<open>TypeError\<close>, which is an \<open>Exception\<close>: the exception
  leaves the script, and neither an error line nor the hint is printed.
\<close>

theorem construction_failure_escapes:
  "isinstance init_type_error ''Exception'' \<and>
   OpenAI_raises failing_constructor ''http://localhost:8080/v1'' ''unused'' = Some init_type_error \<and>
   fst (run failing_constructor) = Inl init_type_error \<and>
   stdout (snd (run failing_constructor)) = []"
proof -
  have f: "OpenAI_raises failing_constructor ''http://localhost:8080/v1'' ''unused'' =
      Some init_type_error"
    by (simp add: failing_constructor_def)
  have i: "isinstance init_type_error ''Exception''"
    by (simp add: isinstance_def init_type_error_def)
  show ?thesis using f i by (simp add: run_def main_construction_raises [OF f])
qed

subsection \<open>The request\<close>

text \<open>
  Claim C5. Every request that a run hands to the package carries exactly the three
  keyword arguments of the script, \<open>model\<close>, \<open>instructions\<close> and \<open>input\<close>, with the
  constant values written in the script, and nothing changes them on the way. Three
  facts say so. Every logged invocation carries this body. A package that takes this
  body only and refuses every other gives the same run as the package itself, so the
  body that reaches \<open>create\<close> is this one. And a package that takes only some other
  body \<open>kw\<close>, such as one with a different model or one more field, refuses the
  request of the script: the run ends in the error message for status 400.
\<close>

theorem request_body_fields:
  "(\<forall>call \<in> set (calls (snd (run sdk))).
     snd call =
       [(''model'', ''gemini-2.0-flash''),
        (''instructions'', ''You are a coding assistant that talks like a pirate.''),
        (''input'', ''How do I check if a Python object is an instance of a class?'')] \<and>
     map fst (snd call) = [''model'', ''instructions'', ''input''] \<and>
     dom (map_of (snd call)) = {''model'', ''instructions'', ''input''}) \<and>
   run (accepting_only
          [(''model'', ''gemini-2.0-flash''),
           (''instructions'', ''You are a coding assistant that talks like a pirate.''),
           (''input'', ''How do I check if a Python object is an instance of a class?'')]
          sdk) = run sdk \<and>
   (OpenAI_raises sdk ''http://localhost:8080/v1'' ''unused'' = None \<and>
    kw \<noteq>
      [(''model'', ''gemini-2.0-flash''),
       (''instructions'', ''You are a coding assistant that talks like a pirate.''),
       (''input'', ''How do I check if a Python object is an instance of a class?'')] \<longrightarrow>
      fst (run (accepting_only kw sdk)) = Inr () \<and>
      stdout (snd (run (accepting_only kw sdk))) =
        [progress_line, ''\<newline>Error: Error code: 400'', hint_line])"
proof (intro conjI impI)
  show "\<forall>call \<in> set (calls (snd (run sdk))).
     snd call = the_request \<and>
     map fst (snd call) = [''model'', ''instructions'', ''input''] \<and>
     dom (map_of (snd call)) = {''model'', ''instructions'', ''input''}"
    by (simp add: calls_of_run dom_map_of_conv_image_fst split: option.split)
next
  have "OpenAI_raises (accepting_only the_request sdk) ''http://localhost:8080/v1'' ''unused'' =
        OpenAI_raises sdk ''http://localhost:8080/v1'' ''unused''"
    by (simp add: accepting_only_def)
  moreover have "create_result (accepting_only the_request sdk) the_client the_request =
        create_result sdk the_client the_request"
    by (simp add: accepting_only_def)
  ultimately show "run (accepting_only the_request sdk) = run sdk"
    by (rule run_reads_two_places)
next
  assume a: "OpenAI_raises sdk ''http://localhost:8080/v1'' ''unused'' = None \<and>
    kw \<noteq> the_request"
  have c: "OpenAI_raises (accepting_only kw sdk) ''http://localhost:8080/v1'' ''unused'' = None"
    using a by (simp add: accepting_only_def)
  have r: "create_result (accepting_only kw sdk) the_client the_request = Inl bad_request"
    using a by (auto simp add: accepting_only_def)
  have i: "isinstance bad_request ''Exception''"
    by (simp add: isinstance_def bad_request_def)
  have s: "exc_str bad_request = ''Error code: 400''"
    by (simp add: bad_request_def)
  show "fst (run (accepting_only kw sdk)) = Inr ()"
    by (simp add: run_def main_caught [OF c r i])
  show "stdout (snd (run (accepting_only kw sdk))) =
        [progress_line, ''\<newline>Error: Error code: 400'', hint_line]"
    by (simp add: run_def main_caught [OF c r i] s)
qed

text \<open>
  The mock server logs the request of the script and answers it also when it takes no
  other body; a server that takes only a request for another model with a \<open>stream\<close>
  field refuses the script.
\<close>

theorem request_body_fields_witness:
  "(the_client, the_request) \<in> set (calls (snd (run mock_server))) \<and>
   map fst (snd (the_client, the_request)) = [''model'', ''instructions'', ''input''] \<and>
   map_of (snd (the_client, the_request)) ''model'' = Some ''gemini-2.0-flash'' \<and>
   run (accepting_only the_request mock_server) = run mock_server \<and>
   OpenAI_raises parrot_server ''http://localhost:8080/v1'' ''unused'' = None \<and>
   [(''model'', ''gpt-4''),
    (''instructions'', ''You are a coding assistant that talks like a pirate.''),
    (''input'', ''How do I check if a Python object is an instance of a class?''),
    (''stream'', ''true'')] \<noteq> the_request \<and>
   stdout (snd (run (accepting_only
      [(''model'', ''gpt-4''),
       (''instructions'', ''You are a coding assistant that talks like a pirate.''),
       (''input'', ''How do I check if a Python object is an instance of a class?''),
       (''stream'', ''true'')] parrot_server))) =
     [progress_line, ''\<newline>Error: Error code: 400'', hint_line]"
proof -
  have m: "(the_client, the_request) \<in> set (calls (snd (run mock_server)))"
    by (simp add: calls_of_run mock_server_def)
  have c: "OpenAI_raises parrot_server ''http://localhost:8080/v1'' ''unused'' = None"
    by (simp add: parrot_server_def)
  have d: "[(''model'', ''gpt-4''),
    (''instructions'', ''You are a coding assistant that talks like a pirate.''),
    (''input'', ''How do I check if a Python object is an instance of a class?''),
    (''stream'', ''true'')] \<noteq> the_request"
    by simp
  from request_body_fields [of mock_server "[]"] m
  have "map fst (snd (the_client, the_request)) = [''model'', ''instructions'', ''input''] \<and>
        run (accepting_only the_request mock_server) = run mock_server"
    by blast
  moreover from request_body_fields [of parrot_server
      "[(''model'', ''gpt-4''),
        (''instructions'', ''You are a coding assistant that talks like a pirate.''),
        (''input'', ''How do I check if a Python object is an instance of a class?''),
        (''stream'', ''true'')]"] c d
  have "stdout (snd (run (accepting_only
      [(''model'', ''gpt-4''),
       (''instructions'', ''You are a coding assistant that talks like a pirate.''),
       (''input'', ''How do I check if a Python object is an instance of a class?''),
       (''stream'', ''true'')] parrot_server))) =
     [progress_line, ''\<newline>Error: Error code: 400'', hint_line]"
    by blast
  ultimately show ?thesis using m c d by simp
qed




subsection \<open>Two runs\<close>

text \<open>
  Claim C7. The output of a run depends on the surroundings only through what the
  constructor does and what the call answers to the one request of the script. Two runs
  for which these agree end the same way and print the same text. Nothing is carried
  from one run to the next either: started in the state that a first run has left, the
  script prints the same lines once more.
\<close>

theorem same_behaviour_same_output:
  assumes "OpenAI_raises sdk1 ''http://localhost:8080/v1'' ''unused'' =
           OpenAI_raises sdk2 ''http://localhost:8080/v1'' ''unused''"
    and "create_result sdk1 the_client the_request = create_result sdk2 the_client the_request"
  shows "run sdk1 = run sdk2 \<and>
         console (snd (run sdk1)) = console (snd (run sdk2)) \<and>
         stdout (snd (main sdk2 (snd (run sdk1)))) =
           stdout (snd (run sdk1)) @ stdout (snd (run sdk1))"
proof -
  from assms have same: "run sdk1 = run sdk2"
    by (rule run_reads_two_places)
  have "stdout (snd (main sdk2 (snd (run sdk1)))) =
        stdout (snd (run sdk1)) @ stdout (snd (run sdk2))"
    using main_appends [of sdk2 "snd (run sdk1)"] by simp
  with same show ?thesis by simp
qed

text \<open>Two servers that differ on other requests and agree on the request of the script.\<close>

theorem same_behaviour_same_output_witness:
  "create_result mock_server the_client [] \<noteq> create_result parrot_server the_client [] \<and>
   OpenAI_raises mock_server ''http://localhost:8080/v1'' ''unused'' =
     OpenAI_raises parrot_server ''http://localhost:8080/v1'' ''unused'' \<and>
   create_result mock_server the_client the_request =
     create_result parrot_server the_client the_request \<and>
   run mock_server = run parrot_server \<and>
   console (snd (run mock_server)) = console (snd (run parrot_server))"
proof -
  have d: "create_result mock_server the_client [] \<noteq> create_result parrot_server the_client []"
    by (simp add: mock_server_def parrot_server_def)
  have c: "OpenAI_raises mock_server ''http://localhost:8080/v1'' ''unused'' =
      OpenAI_raises parrot_server ''http://localhost:8080/v1'' ''unused''"
    by (simp add: mock_server_def parrot_server_def)
  have r: "create_result mock_server the_client the_request =
      create_result parrot_server the_client the_request"
    by (simp add: mock_server_def parrot_server_def)
  from same_behaviour_same_output [OF c r] d c r show ?thesis by simp
qed

end
